theory Spec2Isabelle
  imports Complex_Main "HOL-Library.Word" "HOL-Library.Sublist"
begin

section \<open>The OpenGL two-triangle program (main.cpp)\<close>

text \<open>
  The program is one translation unit: file-scope data, \<open>main\<close>, \<open>initWindow\<close>,
  \<open>processInput\<close> and \<open>framebuffer_size_callback\<close>. Everything it does is a call into
  GLFW, GLAD or OpenGL, or a write to standard output. The model records each such call,
  with its arguments, as an event of a trace, in program order. What the libraries answer
  (the created window, the generated object names, the compile and link status, the key
  state and the window events of each frame) is not decided by the program: it is read from
  an environment record.
\<close>

subsection \<open>Constants of the library headers\<close>

text \<open>
  The headers of GLFW and OpenGL are not part of the repository. Their enumerators are kept
  symbolic: no property below depends on their numeric values.
\<close>

datatype gl_enum =
    GL_FRONT_AND_BACK | GL_LINE
  | GL_ARRAY_BUFFER | GL_ELEMENT_ARRAY_BUFFER | GL_STATIC_DRAW
  | GL_VERTEX_SHADER | GL_FRAGMENT_SHADER | GL_COMPILE_STATUS | GL_LINK_STATUS
  | GL_FLOAT | GL_FALSE | GL_TRIANGLES | GL_UNSIGNED_INT | GL_COLOR_BUFFER_BIT

datatype glfw_enum =
    GLFW_CONTEXT_VERSION_MAJOR | GLFW_CONTEXT_VERSION_MINOR
  | GLFW_OPENGL_PROFILE | GLFW_OPENGL_CORE_PROFILE | GLFW_KEY_ESCAPE

text \<open>The second argument of \<open>glfwWindowHint\<close>: a plain number or an enumerator.\<close>

datatype hint_value = Num int | Sym glfw_enum

text \<open>What \<open>glfwGetKey\<close> returns.\<close>

datatype key_action = GLFW_RELEASE | GLFW_PRESS

text \<open>The two functions of which the program takes the address.\<close>

datatype fn_ptr = fn_framebuffer_size_callback | fn_glfwGetProcAddress

text \<open>
  A \<open>GLFWwindow*\<close> is an address, \<open>NULL\<close> is address 0. An \<open>unsigned int\<close> object name
  is a 32-bit word. A \<open>float\<close> literal is represented by the decimal it is written as.
\<close>

type_synonym window_ptr = nat
type_synonym GLuint = "32 word"

definition NULL :: nat where
  "NULL = 0"

datatype buffer_data = Floats "real list" | UInts "GLuint list"

subsection \<open>Events\<close>

text \<open>
  One constructor for each library function the source calls, carrying the arguments that
  are passed by value; an out-parameter (\<open>&VAO\<close>, \<open>&success\<close>, \<open>infoLog\<close>) is left out of
  the event, its new content comes from the environment. \<open>cout\<close> is one output statement
  with the text it writes.

  The constructors after \<open>cout\<close> name operations that occur nowhere in the source: the
  destructors of the objects the program creates, and access to files, to the command line
  and to the process environment. They are in the vocabulary so that their absence from
  every trace can be stated.
\<close>

datatype event =
    glfwInit
  | glfwWindowHint glfw_enum hint_value
  | glfwCreateWindow int int string nat nat
  | glfwTerminate
  | glfwMakeContextCurrent window_ptr
  | gladLoadGLLoader fn_ptr
  | glfwSetFramebufferSizeCallback window_ptr fn_ptr
  | glViewport int int int int
  | glPolygonMode gl_enum gl_enum
  | glGenVertexArrays int
  | glBindVertexArray GLuint
  | glGenBuffers int
  | glBindBuffer gl_enum GLuint
  | glBufferData gl_enum nat buffer_data gl_enum
  | glCreateShader gl_enum
  | glShaderSource GLuint int string
  | glCompileShader GLuint
  | glGetShaderiv GLuint gl_enum
  | glGetShaderInfoLog GLuint int
  | glCreateProgram
  | glAttachShader GLuint GLuint
  | glLinkProgram GLuint
  | glGetProgramiv GLuint gl_enum
  | glGetProgramInfoLog GLuint int
  | glVertexAttribPointer GLuint int gl_enum gl_enum nat nat
  | glEnableVertexAttribArray GLuint
  | glDeleteShader GLuint
  | glfwWindowShouldClose window_ptr
  | glfwGetKey window_ptr glfw_enum
  | glfwSetWindowShouldClose window_ptr bool
  | glClearColor real real real real
  | glClear gl_enum
  | glUseProgram GLuint
  | glDrawElements gl_enum int gl_enum nat
  | glfwSwapBuffers window_ptr
  | glfwPollEvents
  | cout string
  | glDeleteBuffers int GLuint
  | glDeleteVertexArrays int GLuint
  | glDeleteProgram GLuint
  | glfwDestroyWindow window_ptr
  | file_read string
  | file_write string
  | read_argv
  | read_getenv string

subsection \<open>The environment\<close>

text \<open>
  The answers of the libraries and of the user. The per-frame fields are indexed by the
  number of the loop iteration, counted from 0: \<open>glfwGetKey_ret env k\<close> is what
  \<open>glfwGetKey\<close> returns in iteration \<open>k\<close>, \<open>close_request env k\<close> says whether the
  \<open>glfwPollEvents\<close> of iteration \<open>k\<close> delivers a request to close the window, and
  \<open>resize_events env k\<close> lists the framebuffer sizes (width, height) it delivers.
\<close>

record env =
  glfwCreateWindow_ret :: window_ptr
  gladLoadGLLoader_ret :: int
  glGenVertexArrays_out :: GLuint
  glGenBuffers_out1 :: GLuint
  glGenBuffers_out2 :: GLuint
  glCreateShader_ret1 :: GLuint
  glCreateShader_ret2 :: GLuint
  glCreateProgram_ret :: GLuint
  compile_status :: int
  shader_info_log :: string
  link_status :: int
  program_info_log :: string
  glfwGetKey_ret :: "nat \<Rightarrow> key_action"
  close_request :: "nat \<Rightarrow> bool"
  resize_events :: "nat \<Rightarrow> (int \<times> int) list"

subsection \<open>File-scope data\<close>

text \<open>
  The shader sources are C string literals that end in an explicit \<open>\0\<close>; \<open>glShaderSource\<close>
  is called with a null length array, so it reads each up to the first NUL (\<open>c_str\<close>).
\<close>

definition c_str :: "string \<Rightarrow> string" where
  "c_str cs = takeWhile (\<lambda>c. c \<noteq> CHR 0x00) cs"

definition vertexShaderSource :: string where
  "vertexShaderSource =
     ''#version 330 core'' @ [CHR 0x0A] @
     ''layout (location = 0) in vec3 aPos;'' @ [CHR 0x0A] @
     ''void main()'' @ [CHR 0x0A] @
     ''{'' @ [CHR 0x0A] @
     ''   gl_Position = vec4(aPos.x, aPos.y, aPos.z, 1.0);'' @ [CHR 0x0A] @
     ''}'' @ [CHR 0x00]"

definition fragmentShaderSource :: string where
  "fragmentShaderSource =
     ''#version 330 core'' @ [CHR 0x0A] @
     ''out vec4 FragColor;'' @ [CHR 0x0A] @
     ''void main()'' @ [CHR 0x0A] @
     ''{'' @ [CHR 0x0A] @
     ''   FragColor = vec4(1.0f, 0.0f, 0.0f, 1.0f);'' @ [CHR 0x0A] @
     ''}'' @ [CHR 0x00]"

text \<open>The initialisers of \<open>float vertices[]\<close> and \<open>unsigned int indices[]\<close>.\<close>

definition vertices_init :: "real list" where
  "vertices_init =
     [-0.5,  0.5, 0.0,
      -1.0, -0.5, 0.0,
       0.0, -0.5, 0.0,

       0.5,  0.5, 0.0,
       0.0, -0.5, 0.0,
       1.0, -0.5, 0.0]"

definition indices_init :: "GLuint list" where
  "indices_init =
     [0, 1, 2,
      3, 4, 5]"

text \<open>\<open>sizeof(float)\<close> and \<open>sizeof(unsigned int)\<close>, in bytes.\<close>

definition sizeof_float :: nat where
  "sizeof_float = 4"

definition sizeof_uint :: nat where
  "sizeof_uint = 4"

subsection \<open>Program state\<close>

text \<open>
  The state in and after the render loop: the two file-scope arrays, the local variables of
  \<open>main\<close>, the close flag that GLFW keeps for the window, the number of the current
  iteration, and the trace so far. \<open>infoLog\<close> is \<open>None\<close> while the array is uninitialised.
\<close>

record state =
  vertices :: "real list"
  indices :: "GLuint list"
  window :: window_ptr
  VBO :: GLuint
  VAO :: GLuint
  EBO :: GLuint
  vertexShader :: GLuint
  fragmentShader :: GLuint
  shaderProgram :: GLuint
  success :: int
  infoLog :: "string option"
  shouldClose :: bool
  frame :: nat
  events :: "event list"

definition emit :: "event \<Rightarrow> state \<Rightarrow> state" where
  "emit e s = s\<lparr>events := events s @ [e]\<rparr>"

subsection \<open>framebuffer\_size\_callback and processInput\<close>

text \<open>
  The definition at line 144 names its second parameter \<open>height\<close> and its third \<open>width\<close>
  and calls \<open>glViewport(0, 0, width, height)\<close>. The parameters are kept in the order of the
  definition, since GLFW passes its arguments by position.
\<close>

definition framebuffer_size_callback :: "window_ptr \<Rightarrow> int \<Rightarrow> int \<Rightarrow> state \<Rightarrow> state" where
  "framebuffer_size_callback window' height width s = emit (glViewport 0 0 width height) s"

text \<open>\<open>glfwSetWindowShouldClose\<close> stores the flag of the window.\<close>

definition do_glfwSetWindowShouldClose :: "window_ptr \<Rightarrow> bool \<Rightarrow> state \<Rightarrow> state" where
  "do_glfwSetWindowShouldClose window' v s =
     emit (glfwSetWindowShouldClose window' v) (s\<lparr>shouldClose := v\<rparr>)"

definition processInput :: "env \<Rightarrow> window_ptr \<Rightarrow> state \<Rightarrow> state" where
  "processInput env window' s =
     (let s1 = emit (glfwGetKey window' GLFW_KEY_ESCAPE) s
      in if glfwGetKey_ret env (frame s) = GLFW_PRESS
         then do_glfwSetWindowShouldClose window' True s1
         else s1)"

subsection \<open>initWindow\<close>

text \<open>
  The result is the trace of the call and either \<open>Inl status\<close>, when the function ends the
  process with \<open>exit(status)\<close>, or \<open>Inr window\<close>, when it returns.
\<close>

definition initWindow :: "env \<Rightarrow> event list \<times> (int + window_ptr)" where
  "initWindow env =
     (let t1 = [glfwInit,
                glfwWindowHint GLFW_CONTEXT_VERSION_MAJOR (Num 3),
                glfwWindowHint GLFW_CONTEXT_VERSION_MINOR (Num 3),
                glfwWindowHint GLFW_OPENGL_PROFILE (Sym GLFW_OPENGL_CORE_PROFILE)];
          window' = glfwCreateWindow_ret env;
          t2 = t1 @ [glfwCreateWindow 800 600 ''LearnOpenGL'' NULL NULL]
      in if window' = NULL
         then (t2 @ [cout (''Failed to create window'' @ [CHR 0x0A]), glfwTerminate], Inl 0)
         else
           let t3 = t2 @ [glfwMakeContextCurrent window',
                          gladLoadGLLoader fn_glfwGetProcAddress]
           in if gladLoadGLLoader_ret env = 0
              then (t3 @ [cout (''Failed to initialize GLAD'' @ [CHR 0x0A])], Inl 0)
              else (t3 @ [glfwSetFramebufferSizeCallback window' fn_framebuffer_size_callback,
                          glViewport 0 0 800 600],
                    Inr window'))"

subsection \<open>main, up to the render loop\<close>

text \<open>
  Lines 53 to 110, after \<open>initWindow\<close> has returned \<open>window'\<close> with trace \<open>t0\<close>. The
  result is the state in which the loop is entered. The close flag of a new window is
  unset; \<open>glGetShaderInfoLog\<close> and \<open>glGetProgramInfoLog\<close> write at most 511 characters and a
  NUL into the 512 bytes of \<open>infoLog\<close>, and \<open>cout\<close> prints the array up to its first NUL.
\<close>

definition main_setup :: "env \<Rightarrow> window_ptr \<Rightarrow> event list \<Rightarrow> state" where
  "main_setup env window' t0 =
     (let t1 = t0 @ [glPolygonMode GL_FRONT_AND_BACK GL_LINE];
          vao = glGenVertexArrays_out env;
          t2 = t1 @ [glGenVertexArrays 1, glBindVertexArray vao];
          vbo = glGenBuffers_out1 env;
          t3 = t2 @ [glGenBuffers 1, glBindBuffer GL_ARRAY_BUFFER vbo,
                     glBufferData GL_ARRAY_BUFFER (sizeof_float * length vertices_init)
                       (Floats vertices_init) GL_STATIC_DRAW];
          ebo = glGenBuffers_out2 env;
          t4 = t3 @ [glGenBuffers 1, glBindBuffer GL_ELEMENT_ARRAY_BUFFER ebo,
                     glBufferData GL_ELEMENT_ARRAY_BUFFER (sizeof_uint * length indices_init)
                       (UInts indices_init) GL_STATIC_DRAW];
          vs = glCreateShader_ret1 env;
          t5 = t4 @ [glCreateShader GL_VERTEX_SHADER,
                     glShaderSource vs 1 (c_str vertexShaderSource),
                     glCompileShader vs,
                     glGetShaderiv vs GL_COMPILE_STATUS];
          success1 = compile_status env;
          (t6, infoLog1) =
            (if success1 = 0
             then (t5 @ [glGetShaderInfoLog vs 512,
                         cout (''ERROR::SHADER::VERTEX::COMPILATION_FAILED'' @ [CHR 0x0A] @
                               c_str (take 511 (shader_info_log env)) @ [CHR 0x0A])],
                   Some (take 511 (shader_info_log env)))
             else (t5, None));
          fs = glCreateShader_ret2 env;
          t7 = t6 @ [glCreateShader GL_FRAGMENT_SHADER,
                     glShaderSource fs 1 (c_str fragmentShaderSource),
                     glCompileShader fs];
          prog = glCreateProgram_ret env;
          t8 = t7 @ [glCreateProgram,
                     glAttachShader prog vs,
                     glAttachShader prog fs,
                     glLinkProgram prog,
                     glGetProgramiv prog GL_LINK_STATUS];
          success2 = link_status env;
          (t9, infoLog2) =
            (if success2 = 0
             then (t8 @ [glGetProgramInfoLog prog 512], Some (take 511 (program_info_log env)))
             else (t8, infoLog1));
          t10 = t9 @ [glVertexAttribPointer 0 3 GL_FLOAT GL_FALSE (3 * sizeof_float) 0,
                      glEnableVertexAttribArray 0,
                      glDeleteShader vs,
                      glDeleteShader fs]
      in \<lparr>vertices = vertices_init, indices = indices_init, window = window',
          VBO = vbo, VAO = vao, EBO = ebo,
          vertexShader = vs, fragmentShader = fs, shaderProgram = prog,
          success = success2, infoLog = infoLog2,
          shouldClose = False, frame = 0, events = t10\<rparr>)"

subsection \<open>The render loop\<close>

text \<open>
  \<open>glfwPollEvents\<close> runs the installed callback for each framebuffer size the frame
  delivers, passing window, width and height in this order, sets the close flag when the
  user asked to close the window (it never clears the flag), and ends the frame.
\<close>

definition do_glfwPollEvents :: "env \<Rightarrow> state \<Rightarrow> state" where
  "do_glfwPollEvents env s =
     (let s1 = emit glfwPollEvents s;
          s2 = fold (\<lambda>(w, h). framebuffer_size_callback (window s) w h)
                    (resize_events env (frame s)) s1
      in s2\<lparr>shouldClose := shouldClose s2 \<or> close_request env (frame s),
             frame := Suc (frame s)\<rparr>)"

text \<open>Lines 115 to 135: one pass through the body of the loop.\<close>

definition loop_body :: "env \<Rightarrow> state \<Rightarrow> state" where
  "loop_body env s =
     (let s1 = processInput env (window s) s;
          s2 = emit (glClearColor 0.0 0.0 0.7 1.0) s1;
          s3 = emit (glClear GL_COLOR_BUFFER_BIT) s2;
          s4 = emit (glUseProgram (shaderProgram s3)) s3;
          s5 = emit (glBindVertexArray (VAO s4)) s4;
          s6 = emit (glDrawElements GL_TRIANGLES 6 GL_UNSIGNED_INT 0) s5;
          s7 = emit (glBindVertexArray 0) s6;
          s8 = emit (glfwSwapBuffers (window s7)) s7
      in do_glfwPollEvents env s8)"

text \<open>
  Line 112. The loop need not end: the result is \<open>None\<close> when it runs forever, and
  otherwise the state in which the condition was found false.
\<close>

partial_function (option) render_loop :: "env \<Rightarrow> state \<Rightarrow> state option" where
  "render_loop env s =
     (if shouldClose s
      then Some (emit (glfwWindowShouldClose (window s)) s)
      else render_loop env (loop_body env (emit (glfwWindowShouldClose (window s)) s)))"

text \<open>
  The whole program: the trace and the exit status, or \<open>None\<close> when the loop runs forever.
  \<open>int main()\<close> has no parameters; the environment is its only input.
\<close>

definition main :: "env \<Rightarrow> (event list \<times> int) option" where
  "main env =
     (case initWindow env of
        (t0, Inl status) \<Rightarrow> Some (t0, status)
      | (t0, Inr window') \<Rightarrow>
          (case render_loop env (main_setup env window' t0) of
             None \<Rightarrow> None
           | Some s \<Rightarrow> Some (events s @ [glfwTerminate], 0)))"

declare render_loop.simps [code]

subsection \<open>Observing a run\<close>

text \<open>
  \<open>loop_state env s k\<close> is the state in which the loop that was entered in \<open>s\<close> has
  evaluated its condition for the time \<open>k + 1\<close>, after \<open>k\<close> passes through the body. It
  follows the body regardless of the flag, so it describes every iteration a run can reach,
  also in a run that never ends.
\<close>

fun loop_state :: "env \<Rightarrow> state \<Rightarrow> nat \<Rightarrow> state" where
  "loop_state env s 0 = emit (glfwWindowShouldClose (window s)) s"
| "loop_state env s (Suc k) =
     loop_state env (loop_body env (emit (glfwWindowShouldClose (window s)) s)) k"

text \<open>The events that one pass through the body adds to the trace.\<close>

definition iteration_events :: "env \<Rightarrow> state \<Rightarrow> event list" where
  "iteration_events env s = drop (length (events s)) (events (loop_body env s))"

text \<open>
  Iteration \<open>k\<close> sees a reason to stop: the escape key is pressed when \<open>processInput\<close> asks,
  or the user's request to close the window arrives in \<open>glfwPollEvents\<close>.
\<close>

definition closes :: "env \<Rightarrow> nat \<Rightarrow> bool" where
  "closes env k = (glfwGetKey_ret env k = GLFW_PRESS \<or> close_request env k)"

text \<open>The two arrays and the four object names that stand for the GPU resources.\<close>

definition resources ::
  "state \<Rightarrow> real list \<times> GLuint list \<times> GLuint \<times> GLuint \<times> GLuint \<times> GLuint" where
  "resources s = (vertices s, indices s, VBO s, EBO s, VAO s, shaderProgram s)"

text \<open>The kinds of event that the loop and the callback produce.\<close>

definition is_loop_event :: "event \<Rightarrow> bool" where
  "is_loop_event e =
     (case e of
        glfwWindowShouldClose _ \<Rightarrow> True
      | glfwGetKey _ _ \<Rightarrow> True
      | glfwSetWindowShouldClose _ _ \<Rightarrow> True
      | glClearColor _ _ _ _ \<Rightarrow> True
      | glClear _ \<Rightarrow> True
      | glUseProgram _ \<Rightarrow> True
      | glBindVertexArray _ \<Rightarrow> True
      | glDrawElements _ _ _ _ \<Rightarrow> True
      | glfwSwapBuffers _ \<Rightarrow> True
      | glfwPollEvents \<Rightarrow> True
      | glViewport _ _ _ _ \<Rightarrow> True
      | _ \<Rightarrow> False)"

text \<open>Writes to standard output, and draw calls.\<close>

definition is_stdout :: "event \<Rightarrow> bool" where
  "is_stdout e = (case e of cout _ \<Rightarrow> True | _ \<Rightarrow> False)"

definition is_draw :: "event \<Rightarrow> bool" where
  "is_draw e = (case e of glDrawElements _ _ _ _ \<Rightarrow> True | _ \<Rightarrow> False)"

text \<open>
  Further kinds of event: uploads of buffer data; creation of a buffer, a vertex array
  object or a program; any operation that creates, fills, configures or deletes one;
  deletion of one; any release of an object or of the library; creation of a window;
  access to a file, to the command line or to the process environment.
\<close>

definition is_upload :: "event \<Rightarrow> bool" where
  "is_upload e = (case e of glBufferData _ _ _ _ \<Rightarrow> True | _ \<Rightarrow> False)"

definition creates_resource :: "event \<Rightarrow> bool" where
  "creates_resource e =
     (case e of
        glGenVertexArrays _ \<Rightarrow> True
      | glGenBuffers _ \<Rightarrow> True
      | glCreateProgram \<Rightarrow> True
      | _ \<Rightarrow> False)"

definition writes_resource :: "event \<Rightarrow> bool" where
  "writes_resource e =
     (case e of
        glGenVertexArrays _ \<Rightarrow> True
      | glGenBuffers _ \<Rightarrow> True
      | glBindBuffer _ _ \<Rightarrow> True
      | glBufferData _ _ _ _ \<Rightarrow> True
      | glCreateProgram \<Rightarrow> True
      | glAttachShader _ _ \<Rightarrow> True
      | glLinkProgram _ \<Rightarrow> True
      | glVertexAttribPointer _ _ _ _ _ _ \<Rightarrow> True
      | glEnableVertexAttribArray _ \<Rightarrow> True
      | glDeleteBuffers _ _ \<Rightarrow> True
      | glDeleteVertexArrays _ _ \<Rightarrow> True
      | glDeleteProgram _ \<Rightarrow> True
      | _ \<Rightarrow> False)"

definition destroys_resource :: "event \<Rightarrow> bool" where
  "destroys_resource e =
     (case e of
        glDeleteBuffers _ _ \<Rightarrow> True
      | glDeleteVertexArrays _ _ \<Rightarrow> True
      | glDeleteProgram _ \<Rightarrow> True
      | _ \<Rightarrow> False)"

definition is_teardown :: "event \<Rightarrow> bool" where
  "is_teardown e =
     (case e of
        glDeleteShader _ \<Rightarrow> True
      | glDeleteBuffers _ _ \<Rightarrow> True
      | glDeleteVertexArrays _ _ \<Rightarrow> True
      | glDeleteProgram _ \<Rightarrow> True
      | glfwDestroyWindow _ \<Rightarrow> True
      | glfwTerminate \<Rightarrow> True
      | _ \<Rightarrow> False)"

definition creates_window :: "event \<Rightarrow> bool" where
  "creates_window e = (case e of glfwCreateWindow _ _ _ _ _ \<Rightarrow> True | _ \<Rightarrow> False)"

definition is_outside :: "event \<Rightarrow> bool" where
  "is_outside e =
     (case e of
        file_read _ \<Rightarrow> True
      | file_write _ \<Rightarrow> True
      | read_argv \<Rightarrow> True
      | read_getenv _ \<Rightarrow> True
      | _ \<Rightarrow> False)"

text \<open>
  The trace of the program up to the evaluation \<open>k + 1\<close> of the loop condition, or the
  whole trace when \<open>initWindow\<close> ends the process.
\<close>

definition run_prefix :: "env \<Rightarrow> nat \<Rightarrow> event list" where
  "run_prefix env k =
     (case initWindow env of
        (t0, Inl status) \<Rightarrow> t0
      | (t0, Inr window') \<Rightarrow> events (loop_state env (main_setup env window' t0) k))"

subsection \<open>Concrete runs\<close>

text \<open>
  \<open>env_escape\<close>: everything succeeds, the window is resized to 1024 by 768 in iteration 0
  and the escape key is down in iteration 1. The other runs differ from it in one answer.
\<close>

definition env_escape :: env where
  "env_escape =
     \<lparr>glfwCreateWindow_ret = 4096, gladLoadGLLoader_ret = 1,
      glGenVertexArrays_out = 1, glGenBuffers_out1 = 1, glGenBuffers_out2 = 2,
      glCreateShader_ret1 = 1, glCreateShader_ret2 = 2, glCreateProgram_ret = 3,
      compile_status = 1, shader_info_log = [],
      link_status = 1, program_info_log = [],
      glfwGetKey_ret = (\<lambda>k. if k = 1 then GLFW_PRESS else GLFW_RELEASE),
      close_request = (\<lambda>k. False),
      resize_events = (\<lambda>k. if k = 0 then [(1024, 768)] else [])\<rparr>"

definition env_no_window :: env where
  "env_no_window = env_escape\<lparr>glfwCreateWindow_ret := NULL\<rparr>"

definition env_no_glad :: env where
  "env_no_glad = env_escape\<lparr>gladLoadGLLoader_ret := 0\<rparr>"

definition env_link_fails :: env where
  "env_link_fails =
     env_escape\<lparr>link_status := 0, program_info_log := ''error: linking failed''\<rparr>"

definition env_never_closes :: env where
  "env_never_closes = env_escape\<lparr>glfwGetKey_ret := (\<lambda>k. GLFW_RELEASE)\<rparr>"

definition env_close_button :: env where
  "env_close_button =
     env_escape\<lparr>glfwGetKey_ret := (\<lambda>k. GLFW_RELEASE), close_request := (\<lambda>k. k = 2)\<rparr>"

section \<open>Properties\<close>

subsection \<open>Auxiliary facts about the loop\<close>

lemma fold_callbacks:
  "fold (\<lambda>(w, h). framebuffer_size_callback win w h) rs s =
   s\<lparr>events := events s @ map (\<lambda>(w, h). glViewport 0 0 h w) rs\<rparr>"
  by (induction rs arbitrary: s) (auto simp: framebuffer_size_callback_def emit_def)

lemma loop_body_eq:
  "loop_body env s =
   s\<lparr>shouldClose := shouldClose s \<or> closes env (frame s),
     frame := Suc (frame s),
     events := events s @
       [glfwGetKey (window s) GLFW_KEY_ESCAPE] @
       (if glfwGetKey_ret env (frame s) = GLFW_PRESS
        then [glfwSetWindowShouldClose (window s) True] else []) @
       [glClearColor 0.0 0.0 0.7 1.0,
        glClear GL_COLOR_BUFFER_BIT,
        glUseProgram (shaderProgram s),
        glBindVertexArray (VAO s),
        glDrawElements GL_TRIANGLES 6 GL_UNSIGNED_INT 0,
        glBindVertexArray 0,
        glfwSwapBuffers (window s),
        glfwPollEvents] @
       map (\<lambda>(w, h). glViewport 0 0 h w) (resize_events env (frame s))\<rparr>"
  by (simp add: loop_body_def processInput_def do_glfwPollEvents_def closes_def
      do_glfwSetWindowShouldClose_def fold_callbacks emit_def Let_def)

lemma iteration_events_eq:
  "iteration_events env s =
       [glfwGetKey (window s) GLFW_KEY_ESCAPE] @
       (if glfwGetKey_ret env (frame s) = GLFW_PRESS
        then [glfwSetWindowShouldClose (window s) True] else []) @
       [glClearColor 0.0 0.0 0.7 1.0,
        glClear GL_COLOR_BUFFER_BIT,
        glUseProgram (shaderProgram s),
        glBindVertexArray (VAO s),
        glDrawElements GL_TRIANGLES 6 GL_UNSIGNED_INT 0,
        glBindVertexArray 0,
        glfwSwapBuffers (window s),
        glfwPollEvents] @
       map (\<lambda>(w, h). glViewport 0 0 h w) (resize_events env (frame s))"
  unfolding iteration_events_def by (subst loop_body_eq) simp

lemma events_loop_body: "events (loop_body env s) = events s @ iteration_events env s"
  unfolding iteration_events_eq by (subst loop_body_eq) simp

lemma loop_body_fields [simp]:
  "frame (loop_body env s) = Suc (frame s)"
  "shouldClose (loop_body env s) = (shouldClose s \<or> closes env (frame s))"
  "window (loop_body env s) = window s"
  "resources (loop_body env s) = resources s"
  by (subst loop_body_eq, simp add: resources_def)+

lemma emit_fields [simp]:
  "frame (emit e s) = frame s"
  "shouldClose (emit e s) = shouldClose s"
  "window (emit e s) = window s"
  "resources (emit e s) = resources s"
  "events (emit e s) = events s @ [e]"
  by (simp_all add: emit_def resources_def)

lemma loop_state_fields [simp]:
  "frame (loop_state env s k) = frame s + k"
  "window (loop_state env s k) = window s"
  "resources (loop_state env s k) = resources s"
  by (induction k arbitrary: s; simp)+

lemma handle_fields [simp]:
  "VAO (loop_body env s) = VAO s"
  "shaderProgram (loop_body env s) = shaderProgram s"
  "VAO (emit e s) = VAO s"
  "shaderProgram (emit e s) = shaderProgram s"
  by (simp_all add: emit_def, (subst loop_body_eq, simp)+)

lemma loop_state_handle_fields [simp]:
  "VAO (loop_state env s k) = VAO s"
  "shaderProgram (loop_state env s k) = shaderProgram s"
  by (induction k arbitrary: s; simp)+

lemma main_setup_fields [simp]:
  "VAO (main_setup env w t0) = glGenVertexArrays_out env"
  "VBO (main_setup env w t0) = glGenBuffers_out1 env"
  "EBO (main_setup env w t0) = glGenBuffers_out2 env"
  "shaderProgram (main_setup env w t0) = glCreateProgram_ret env"
  "window (main_setup env w t0) = w"
  "frame (main_setup env w t0) = 0"
  "shouldClose (main_setup env w t0) = False"
  "vertices (main_setup env w t0) = vertices_init"
  "indices (main_setup env w t0) = indices_init"
  by (simp_all add: main_setup_def Let_def split_def)

lemma loop_state_shouldClose:
  "shouldClose (loop_state env s k) = (shouldClose s \<or> (\<exists>j<k. closes env (frame s + j)))"
proof (induction k arbitrary: s)
  case 0
  then show ?case by simp
next
  case (Suc k)
  have "(\<exists>j<Suc k. closes env (frame s + j)) =
        (closes env (frame s) \<or> (\<exists>j<k. closes env (Suc (frame s + j))))"
    by (metis (no_types, lifting) Suc_less_eq add_Suc_right add_cancel_right_right
        less_Suc_eq_0_disj)
  with Suc show ?case by auto
qed

lemma is_loop_event_simps [simp]:
  "is_loop_event (glfwWindowShouldClose w)"
  "is_loop_event (glfwGetKey w key)"
  "is_loop_event (glfwSetWindowShouldClose w b)"
  "is_loop_event (glClearColor c1 c2 c3 c4)"
  "is_loop_event (glClear m)"
  "is_loop_event (glUseProgram p)"
  "is_loop_event (glBindVertexArray a)"
  "is_loop_event (glDrawElements mode n ty off)"
  "is_loop_event (glfwSwapBuffers w)"
  "is_loop_event glfwPollEvents"
  "is_loop_event (glViewport x y wd ht)"
  by (simp_all add: is_loop_event_def)

lemma list_all_iteration_events: "list_all is_loop_event (iteration_events env s)"
  by (auto simp add: iteration_events_eq list_all_iff)

lemma loop_state_events:
  "\<exists>t. events (loop_state env s k) = events s @ t \<and> list_all is_loop_event t"
proof (induction k arbitrary: s)
  case 0
  then show ?case by simp
next
  case (Suc k)
  let ?s1 = "loop_body env (emit (glfwWindowShouldClose (window s)) s)"
  from Suc obtain t where t: "events (loop_state env ?s1 k) = events ?s1 @ t"
    "list_all is_loop_event t" by blast
  have "events ?s1 = events s @ glfwWindowShouldClose (window s) #
          iteration_events env (emit (glfwWindowShouldClose (window s)) s)"
    by (simp add: events_loop_body)
  then show ?case using t list_all_iteration_events by simp
qed

lemma filter_loop_state:
  assumes "\<And>e. is_loop_event e \<Longrightarrow> \<not> P e"
  shows "filter P (events (loop_state env s k)) = filter P (events s)"
proof -
  obtain t where t: "events (loop_state env s k) = events s @ t" "list_all is_loop_event t"
    using loop_state_events by blast
  from t(2) assms have "filter P t = []" by (auto simp: list_all_iff filter_empty_conv)
  with t(1) show ?thesis by simp
qed

lemma filter_draw_loop_body:
  "filter is_draw (events (loop_body env s)) =
   filter is_draw (events s) @ [glDrawElements GL_TRIANGLES 6 GL_UNSIGNED_INT 0]"
  by (simp add: events_loop_body iteration_events_eq is_draw_def split_def)

lemma filter_draw_loop_state:
  "filter is_draw (events (loop_state env s k)) =
   filter is_draw (events s) @ replicate k (glDrawElements GL_TRIANGLES 6 GL_UNSIGNED_INT 0)"
proof (induction k arbitrary: s)
  case 0
  then show ?case by (simp add: is_draw_def)
next
  case (Suc k)
  have "filter is_draw (events (loop_body env (emit (glfwWindowShouldClose (window s)) s))) =
        filter is_draw (events s) @ [glDrawElements GL_TRIANGLES 6 GL_UNSIGNED_INT 0]"
    by (simp add: filter_draw_loop_body) (simp add: is_draw_def)
  with Suc show ?case by (simp add: replicate_append_same)
qed

lemma filter_draw_main_setup:
  "filter is_draw (events (main_setup env w t0)) = filter is_draw t0"
  by (simp add: main_setup_def Let_def split_def is_draw_def)

lemma not_loop_event:
  "is_loop_event e \<Longrightarrow> \<not> is_upload e"
  "is_loop_event e \<Longrightarrow> \<not> creates_resource e"
  "is_loop_event e \<Longrightarrow> \<not> writes_resource e"
  "is_loop_event e \<Longrightarrow> \<not> destroys_resource e"
  "is_loop_event e \<Longrightarrow> \<not> is_teardown e"
  "is_loop_event e \<Longrightarrow> \<not> creates_window e"
  "is_loop_event e \<Longrightarrow> \<not> is_outside e"
  "is_loop_event e \<Longrightarrow> \<not> is_stdout e"
  by (cases e; simp add: is_loop_event_def is_upload_def creates_resource_def
      writes_resource_def destroys_resource_def is_teardown_def creates_window_def
      is_outside_def is_stdout_def)+

lemma callback_resources:
  "resources (framebuffer_size_callback win a b s) = resources s"
  by (simp add: framebuffer_size_callback_def)

lemma resources_main_setup:
  "resources (main_setup env w t0) =
     (vertices_init, indices_init, glGenBuffers_out1 env, glGenBuffers_out2 env,
      glGenVertexArrays_out env, glCreateProgram_ret env)"
  by (simp add: resources_def)

lemma filter_iteration_events:
  assumes "\<And>e. is_loop_event e \<Longrightarrow> \<not> P e"
  shows "filter P (iteration_events env s) = []"
  using list_all_iteration_events[of env s] assms
  by (auto simp: list_all_iff filter_empty_conv)

lemma filter_teardown_main_setup:
  "filter is_teardown (events (main_setup env w t0)) =
     filter is_teardown t0 @
     [glDeleteShader (glCreateShader_ret1 env), glDeleteShader (glCreateShader_ret2 env)]"
  by (simp add: main_setup_def Let_def split_def is_teardown_def)

lemma filter_destroys_main_setup:
  "filter destroys_resource (events (main_setup env w t0)) = filter destroys_resource t0"
  by (simp add: main_setup_def Let_def split_def destroys_resource_def)

lemma filter_window_main_setup:
  "filter creates_window (events (main_setup env w t0)) = filter creates_window t0"
  by (simp add: main_setup_def Let_def split_def creates_window_def)

lemma filter_outside_main_setup:
  "filter is_outside (events (main_setup env w t0)) = filter is_outside t0"
  by (simp add: main_setup_def Let_def split_def is_outside_def)

lemma initWindow_filters:
  "filter is_teardown (fst (initWindow env)) =
     (if glfwCreateWindow_ret env = NULL then [glfwTerminate] else [])"
  "filter destroys_resource (fst (initWindow env)) = []"
  "filter creates_window (fst (initWindow env)) =
     [glfwCreateWindow 800 600 ''LearnOpenGL'' NULL NULL]"
  "filter is_outside (fst (initWindow env)) = []"
  "filter creates_resource (fst (initWindow env)) = []"
  by (simp_all add: initWindow_def Let_def is_teardown_def destroys_resource_def
      creates_window_def is_outside_def creates_resource_def)

text \<open>The loop ends in the first state whose flag is set, and only there.\<close>

lemma render_loop_exit:
  "shouldClose (loop_state env s k) \<Longrightarrow> \<forall>j<k. \<not> shouldClose (loop_state env s j) \<Longrightarrow>
   render_loop env s = Some (loop_state env s k)"
proof (induction k arbitrary: s)
  case 0
  then show ?case by (subst render_loop.simps) simp
next
  case (Suc k)
  let ?s1 = "loop_body env (emit (glfwWindowShouldClose (window s)) s)"
  from Suc.prems(2) have ns: "\<not> shouldClose s" by (auto dest: spec[of _ 0])
  have "\<forall>j<k. \<not> shouldClose (loop_state env ?s1 j)"
    using Suc.prems(2) by (auto dest: spec[of _ "Suc j" for j])
  with Suc.IH[of ?s1] Suc.prems(1) have "render_loop env ?s1 = Some (loop_state env ?s1 k)"
    by simp
  with ns show ?case by (subst render_loop.simps) simp
qed

lemma render_loop_Some:
  "render_loop env s = Some s' \<Longrightarrow> \<exists>k. s' = loop_state env s k \<and> shouldClose s'"
proof (induction rule: render_loop.raw_induct[rotated 1, consumes 1])
  case (1 render_loop' env s s')
  show ?case
  proof (cases "shouldClose s")
    case True
    with 1(2) have "s' = loop_state env s 0" by simp
    with True show ?thesis by (metis emit_fields(2) loop_state.simps(1))
  next
    case False
    with 1(2) have "render_loop' env
        (loop_body env (emit (glfwWindowShouldClose (window s)) s)) = Some s'" by simp
    from 1(1)[OF this] obtain k where
      "s' = loop_state env (loop_body env (emit (glfwWindowShouldClose (window s)) s)) k"
      "shouldClose s'" by blast
    then have "s' = loop_state env s (Suc k) \<and> shouldClose s'" by simp
    then show ?thesis by blast
  qed
qed

lemma render_loop_None:
  "\<forall>k. \<not> shouldClose (loop_state env s k) \<Longrightarrow> render_loop env s = None"
proof (cases "render_loop env s")
  case None
  then show ?thesis .
next
  case (Some s')
  assume never: "\<forall>k. \<not> shouldClose (loop_state env s k)"
  from render_loop_Some[OF Some] obtain k where "s' = loop_state env s k" "shouldClose s'"
    by blast
  with never show ?thesis by blast
qed

lemma main_cases:
  assumes "main env = Some (t, status)"
  shows "(\<exists>c. initWindow env = (t, Inl c)) \<or>
         (\<exists>t0 w k. initWindow env = (t0, Inr w) \<and>
            render_loop env (main_setup env w t0) = Some (loop_state env (main_setup env w t0) k) \<and>
            t = events (loop_state env (main_setup env w t0) k) @ [glfwTerminate])"
proof (cases "initWindow env")
  case (Pair t0 r)
  show ?thesis
  proof (cases r)
    case (Inl c)
    with Pair assms show ?thesis by (simp add: main_def)
  next
    case (Inr w)
    with Pair assms obtain s where s: "render_loop env (main_setup env w t0) = Some s"
      "t = events s @ [glfwTerminate]"
      by (auto simp: main_def split: option.splits)
    from render_loop_Some[OF s(1)] obtain k where "s = loop_state env (main_setup env w t0) k"
      by blast
    with s Pair Inr show ?thesis by blast
  qed
qed

subsection \<open>The window and context initializer\<close>

text \<open>
  C8. \<open>initWindow\<close> returns a window exactly when \<open>glfwCreateWindow\<close> gave a non-null
  window and the GLAD loader reported success. The handle it returns is that window, so it
  is not null, and the calls it has made are, in this order: the GLFW initialisation and
  hints, the creation of the window, making its OpenGL context current, loading the
  OpenGL functions, installing \<open>framebuffer_size_callback\<close> as the resize callback, and
  setting the viewport to 800 by 600.
\<close>

theorem initWindow_returns:
  "initWindow env = (t, Inr w) \<longleftrightarrow>
     glfwCreateWindow_ret env \<noteq> NULL \<and> gladLoadGLLoader_ret env \<noteq> 0 \<and>
     w = glfwCreateWindow_ret env \<and> w \<noteq> NULL \<and>
     t = [glfwInit,
          glfwWindowHint GLFW_CONTEXT_VERSION_MAJOR (Num 3),
          glfwWindowHint GLFW_CONTEXT_VERSION_MINOR (Num 3),
          glfwWindowHint GLFW_OPENGL_PROFILE (Sym GLFW_OPENGL_CORE_PROFILE),
          glfwCreateWindow 800 600 ''LearnOpenGL'' NULL NULL,
          glfwMakeContextCurrent w,
          gladLoadGLLoader fn_glfwGetProcAddress,
          glfwSetFramebufferSizeCallback w fn_framebuffer_size_callback,
          glViewport 0 0 800 600]"
  by (auto simp: initWindow_def Let_def)

theorem initWindow_returns_witness:
  "initWindow env_escape =
     ([glfwInit,
       glfwWindowHint GLFW_CONTEXT_VERSION_MAJOR (Num 3),
       glfwWindowHint GLFW_CONTEXT_VERSION_MINOR (Num 3),
       glfwWindowHint GLFW_OPENGL_PROFILE (Sym GLFW_OPENGL_CORE_PROFILE),
       glfwCreateWindow 800 600 ''LearnOpenGL'' 0 0,
       glfwMakeContextCurrent 4096,
       gladLoadGLLoader fn_glfwGetProcAddress,
       glfwSetFramebufferSizeCallback 4096 fn_framebuffer_size_callback,
       glViewport 0 0 800 600], Inr 4096)"
  using initWindow_returns [of env_escape _ 4096]
  by (simp add: env_escape_def NULL_def)

subsection \<open>Exit status\<close>

text \<open>
  C10. Whenever the program terminates, its exit status is 0: after the render loop
  (\<open>return 0\<close>), when the window could not be created and when the GLAD loader failed
  (\<open>exit(0)\<close> in both). A failure is not reported through the exit status.
\<close>

theorem main_exit_status:
  "main env = Some (t, status) \<Longrightarrow> status = 0"
  by (auto simp: main_def initWindow_def Let_def split: option.splits if_splits)

theorem main_exit_status_witness:
  "(\<exists>t. main env_escape = Some (t, 0)) \<and>
   (\<exists>t. main env_no_window = Some (t, 0)) \<and>
   (\<exists>t. main env_no_glad = Some (t, 0))"
proof -
  have "main env_escape \<noteq> None" by code_simp
  then obtain t1 c1 where r1: "main env_escape = Some (t1, c1)" by auto
  have "main env_no_window \<noteq> None" by code_simp
  then obtain t2 c2 where r2: "main env_no_window = Some (t2, c2)" by auto
  have "main env_no_glad \<noteq> None" by code_simp
  then obtain t3 c3 where r3: "main env_no_glad = Some (t3, c3)" by auto
  from main_exit_status [OF r1] main_exit_status [OF r2] main_exit_status [OF r3] r1 r2 r3
  show ?thesis by simp
qed

subsection \<open>Failure handling\<close>

text \<open>
  The two failures in \<open>initWindow\<close> print a message and end the process at once, the
  first after \<open>glfwTerminate\<close>.
\<close>

lemma main_window_failure:
  "glfwCreateWindow_ret env = NULL \<Longrightarrow>
   main env =
     Some ([glfwInit,
            glfwWindowHint GLFW_CONTEXT_VERSION_MAJOR (Num 3),
            glfwWindowHint GLFW_CONTEXT_VERSION_MINOR (Num 3),
            glfwWindowHint GLFW_OPENGL_PROFILE (Sym GLFW_OPENGL_CORE_PROFILE),
            glfwCreateWindow 800 600 ''LearnOpenGL'' NULL NULL,
            cout (''Failed to create window'' @ [CHR 0x0A]),
            glfwTerminate], 0)"
  by (simp add: main_def initWindow_def Let_def)

lemma main_glad_failure:
  "glfwCreateWindow_ret env \<noteq> NULL \<Longrightarrow> gladLoadGLLoader_ret env = 0 \<Longrightarrow>
   main env =
     Some ([glfwInit,
            glfwWindowHint GLFW_CONTEXT_VERSION_MAJOR (Num 3),
            glfwWindowHint GLFW_CONTEXT_VERSION_MINOR (Num 3),
            glfwWindowHint GLFW_OPENGL_PROFILE (Sym GLFW_OPENGL_CORE_PROFILE),
            glfwCreateWindow 800 600 ''LearnOpenGL'' NULL NULL,
            glfwMakeContextCurrent (glfwCreateWindow_ret env),
            gladLoadGLLoader fn_glfwGetProcAddress,
            cout (''Failed to initialize GLAD'' @ [CHR 0x0A])], 0)"
  by (simp add: main_def initWindow_def Let_def)

text \<open>
  What the setup prints depends on the compile status of the vertex shader alone: the
  message and the log when it is 0, nothing otherwise, whatever the link status is.
\<close>

lemma main_setup_stdout:
  "filter is_stdout (drop (length t0) (events (main_setup env w t0))) =
     (if compile_status env = 0
      then [cout (''ERROR::SHADER::VERTEX::COMPILATION_FAILED'' @ [CHR 0x0A] @
                  c_str (take 511 (shader_info_log env)) @ [CHR 0x0A])]
      else [])"
  by (simp add: main_setup_def Let_def split_def is_stdout_def)

text \<open>
  C1. The claim has every one of the three failure points print a message, the failure of
  shader or program compilation included. The source prints for a vertex shader that does
  not compile, but for a program that does not link it fetches the log with
  \<open>glGetProgramInfoLog\<close> and prints nothing (and it never asks for the status of the
  fragment shader). In the run \<open>env_link_fails\<close> the link status is 0: the log is
  fetched, nothing at all is written to standard output, both iterations still draw, and
  the exit status is 0.
\<close>

theorem link_failure_prints_nothing:
  "link_status env_link_fails = 0 \<and>
   map_option (\<lambda>(t, status). (filter is_stdout t, length (filter is_draw t), status))
     (main env_link_fails) = Some ([], 2, 0) \<and>
   map_option (\<lambda>(t, status). glGetProgramInfoLog 3 512 \<in> set t) (main env_link_fails) =
     Some True"
  by code_simp

subsection \<open>The resize callback\<close>

text \<open>
  C4. The claim has the callback forward width and height to \<open>glViewport\<close> in the order
  it receives them. The prototype at line 5 names the parameters (window, width, height),
  which is the order in which GLFW passes them; the definition at line 144 names them
  (window, height, width). Called with width 800 and height 600, the callback therefore
  sets a viewport of width 600 and height 800.
\<close>

theorem framebuffer_size_callback_swaps:
  "events (framebuffer_size_callback win 800 600 s) = events s @ [glViewport 0 0 600 800] \<and>
   glViewport 0 0 600 800 \<noteq> glViewport 0 0 800 600"
  by (simp add: framebuffer_size_callback_def emit_def)

subsection \<open>One iteration of the render loop\<close>

text \<open>
  C2. In every iteration \<open>k\<close> of the loop that \<open>main\<close> enters, the body makes the same
  calls in the same order: it asks for the state of the escape key (\<open>processInput\<close>),
  clears the framebuffer, binds the shader program and the vertex array object that the
  setup created, issues one \<open>glDrawElements\<close> call for 6 indices, and swaps the buffers.
  The only calls that vary between iterations are \<open>glfwSetWindowShouldClose\<close>, made when
  the escape key is down, and the \<open>glViewport\<close> calls of the resize callback, which run
  inside \<open>glfwPollEvents\<close> after the swap.
\<close>

theorem render_iteration_sequence:
  "iteration_events env (loop_state env (main_setup env w t0) k) =
     [glfwGetKey w GLFW_KEY_ESCAPE] @
     (if glfwGetKey_ret env k = GLFW_PRESS then [glfwSetWindowShouldClose w True] else []) @
     [glClearColor 0.0 0.0 0.7 1.0,
      glClear GL_COLOR_BUFFER_BIT,
      glUseProgram (glCreateProgram_ret env),
      glBindVertexArray (glGenVertexArrays_out env),
      glDrawElements GL_TRIANGLES 6 GL_UNSIGNED_INT 0,
      glBindVertexArray 0,
      glfwSwapBuffers w,
      glfwPollEvents] @
     map (\<lambda>(wd, ht). glViewport 0 0 ht wd) (resize_events env k) \<and>
   subseq
     [glfwGetKey w GLFW_KEY_ESCAPE,
      glClear GL_COLOR_BUFFER_BIT,
      glUseProgram (glCreateProgram_ret env),
      glBindVertexArray (glGenVertexArrays_out env),
      glDrawElements GL_TRIANGLES 6 GL_UNSIGNED_INT 0,
      glfwSwapBuffers w]
     (iteration_events env (loop_state env (main_setup env w t0) k)) \<and>
   filter is_draw (iteration_events env (loop_state env (main_setup env w t0) k)) =
     [glDrawElements GL_TRIANGLES 6 GL_UNSIGNED_INT 0]"
proof -
  let ?s = "loop_state env (main_setup env w t0) k"
  let ?steps = "[glClear GL_COLOR_BUFFER_BIT,
      glUseProgram (glCreateProgram_ret env),
      glBindVertexArray (glGenVertexArrays_out env),
      glDrawElements GL_TRIANGLES 6 GL_UNSIGNED_INT 0,
      glfwSwapBuffers w]"
  let ?mid = "[glClearColor 0.0 0.0 0.7 1.0,
      glClear GL_COLOR_BUFFER_BIT,
      glUseProgram (glCreateProgram_ret env),
      glBindVertexArray (glGenVertexArrays_out env),
      glDrawElements GL_TRIANGLES 6 GL_UNSIGNED_INT 0,
      glBindVertexArray 0,
      glfwSwapBuffers w,
      glfwPollEvents]"
  let ?esc = "if glfwGetKey_ret env k = GLFW_PRESS
              then [glfwSetWindowShouldClose w True] else []"
  let ?cb = "map (\<lambda>(wd, ht). glViewport 0 0 ht wd) (resize_events env k)"
  have eq: "iteration_events env ?s = [glfwGetKey w GLFW_KEY_ESCAPE] @ ?esc @ ?mid @ ?cb"
    by (simp add: iteration_events_eq)
  have mid: "subseq ?steps ?mid"
    by simp
  have "subseq ([glfwGetKey w GLFW_KEY_ESCAPE] @ [] @ ?steps @ [])
          ([glfwGetKey w GLFW_KEY_ESCAPE] @ ?esc @ ?mid @ ?cb)"
    by (intro list_emb_append_mono subseq_order.order_refl mid) simp_all
  then have sub: "subseq (glfwGetKey w GLFW_KEY_ESCAPE # ?steps) (iteration_events env ?s)"
    unfolding eq by simp
  have dr: "filter is_draw (iteration_events env ?s) =
      [glDrawElements GL_TRIANGLES 6 GL_UNSIGNED_INT 0]"
    unfolding eq by (simp add: is_draw_def split_def)
  from eq sub dr show ?thesis by blast
qed

theorem render_iteration_sequence_witness:
  "iteration_events env_escape (loop_state env_escape (main_setup env_escape 4096 []) 1) =
     [glfwGetKey 4096 GLFW_KEY_ESCAPE,
      glfwSetWindowShouldClose 4096 True,
      glClearColor 0.0 0.0 0.7 1.0,
      glClear GL_COLOR_BUFFER_BIT,
      glUseProgram 3,
      glBindVertexArray 1,
      glDrawElements GL_TRIANGLES 6 GL_UNSIGNED_INT 0,
      glBindVertexArray 0,
      glfwSwapBuffers 4096,
      glfwPollEvents]"
  using render_iteration_sequence [of env_escape 4096 "[]" 1]
  by (simp add: env_escape_def)

subsection \<open>How long the loop runs\<close>

text \<open>
  C3. The loop that \<open>main\<close> enters repeats until an iteration sees the escape key down or
  receives the user's request to close the window. If no iteration ever does, the loop
  never ends. If iteration \<open>n\<close> is the first that does, the loop ends after exactly
  \<open>n + 1\<close> passes through the body, each of which has issued the same draw call. In
  particular, in any state, when \<open>processInput\<close> finds the escape key down, the close flag
  is set at the end of that pass and the loop ends at the next evaluation of its condition,
  without entering the body again.
\<close>

theorem render_loop_until_close:
  "((\<forall>k. \<not> closes env k) \<longrightarrow> render_loop env (main_setup env w t0) = None) \<and>
   (closes env n \<and> (\<forall>j<n. \<not> closes env j) \<longrightarrow>
      render_loop env (main_setup env w t0) = Some (loop_state env (main_setup env w t0) (Suc n)) \<and>
      frame (loop_state env (main_setup env w t0) (Suc n)) = Suc n \<and>
      filter is_draw (events (loop_state env (main_setup env w t0) (Suc n))) =
        filter is_draw t0 @ replicate (Suc n) (glDrawElements GL_TRIANGLES 6 GL_UNSIGNED_INT 0)) \<and>
   (glfwGetKey_ret env (frame s) = GLFW_PRESS \<longrightarrow>
      shouldClose (loop_body env s) \<and>
      render_loop env (loop_body env s) =
        Some (emit (glfwWindowShouldClose (window s)) (loop_body env s)))"
proof (intro conjI impI)
  let ?s0 = "main_setup env w t0"
  have sc: "shouldClose (loop_state env ?s0 k) = (\<exists>j<k. closes env j)" for k
    by (simp add: loop_state_shouldClose)
  {
    assume "\<forall>k. \<not> closes env k"
    then have "\<forall>k. \<not> shouldClose (loop_state env ?s0 k)" by (simp add: sc)
    then show "render_loop env ?s0 = None" by (rule render_loop_None)
  }
  {
    assume a: "closes env n \<and> (\<forall>j<n. \<not> closes env j)"
    then have 1: "shouldClose (loop_state env ?s0 (Suc n))" unfolding sc by blast
    have 2: "\<forall>j<Suc n. \<not> shouldClose (loop_state env ?s0 j)"
      unfolding sc using a by (metis less_Suc_eq less_trans)
    from render_loop_exit[OF 1 2]
    show "render_loop env ?s0 = Some (loop_state env ?s0 (Suc n))" .
    show "frame (loop_state env ?s0 (Suc n)) = Suc n" by simp
    show "filter is_draw (events (loop_state env ?s0 (Suc n))) =
        filter is_draw t0 @ replicate (Suc n) (glDrawElements GL_TRIANGLES 6 GL_UNSIGNED_INT 0)"
      by (simp only: filter_draw_loop_state filter_draw_main_setup)
  }
  {
    assume "glfwGetKey_ret env (frame s) = GLFW_PRESS"
    then show c: "shouldClose (loop_body env s)" by (simp add: closes_def)
    then show "render_loop env (loop_body env s) =
        Some (emit (glfwWindowShouldClose (window s)) (loop_body env s))"
      by (subst render_loop.simps) simp
  }
qed

theorem render_loop_until_close_witness:
  "render_loop env_never_closes (main_setup env_never_closes 4096 []) = None \<and>
   render_loop env_close_button (main_setup env_close_button 4096 []) =
     Some (loop_state env_close_button (main_setup env_close_button 4096 []) 3) \<and>
   shouldClose (loop_body env_escape (loop_state env_escape (main_setup env_escape 4096 []) 1))"
proof -
  have 1: "\<forall>k. \<not> closes env_never_closes k"
    by (simp add: closes_def env_never_closes_def env_escape_def)
  have 2: "closes env_close_button 2 \<and> (\<forall>j<2. \<not> closes env_close_button j)"
    by (simp add: closes_def env_close_button_def env_escape_def)
  have 3: "glfwGetKey_ret env_escape
      (frame (loop_state env_escape (main_setup env_escape 4096 []) 1)) = GLFW_PRESS"
    by (simp add: env_escape_def)
  from render_loop_until_close [of env_never_closes 4096 "[]"] 1
  have a: "render_loop env_never_closes (main_setup env_never_closes 4096 []) = None"
    by blast
  from render_loop_until_close [of env_close_button 4096 "[]" 2] 2
  have b: "render_loop env_close_button (main_setup env_close_button 4096 []) =
     Some (loop_state env_close_button (main_setup env_close_button 4096 []) 3)"
    by (simp add: eval_nat_numeral)
  from render_loop_until_close [of env_escape _ _ _
      "loop_state env_escape (main_setup env_escape 4096 []) 1"] 3
  have c: "shouldClose (loop_body env_escape
      (loop_state env_escape (main_setup env_escape 4096 []) 1))"
    by blast
  from a b c show ?thesis by blast
qed

subsection \<open>Geometry\<close>

text \<open>
  C5. The setup uploads exactly two buffers. The first is the \<open>vertices\<close> array: 18
  floats (72 bytes), which the attribute layout (3 floats per vertex, stride 12 bytes)
  reads as 6 vertices of 3 coordinates. The second is the \<open>indices\<close> array: 6 unsigned
  integers (24 bytes), three for each of two triangles, every one of them between 0 and 5.
\<close>

theorem geometry_upload:
  "filter is_upload (drop (length t0) (events (main_setup env w t0))) =
     [glBufferData GL_ARRAY_BUFFER (18 * 4) (Floats vertices_init) GL_STATIC_DRAW,
      glBufferData GL_ELEMENT_ARRAY_BUFFER (6 * 4) (UInts indices_init) GL_STATIC_DRAW] \<and>
   length vertices_init = 18 \<and>
   length vertices_init = 6 * 3 \<and>
   glVertexAttribPointer 0 3 GL_FLOAT GL_FALSE (3 * 4) 0 \<in> set (events (main_setup env w t0)) \<and>
   length indices_init = 6 \<and>
   length indices_init = 2 * 3 \<and>
   list_all (\<lambda>i. unat i \<le> 5) indices_init"
  by (simp add: main_setup_def Let_def split_def is_upload_def vertices_init_def
      indices_init_def sizeof_float_def sizeof_uint_def)

subsection \<open>Lifetime of the GPU resources\<close>

text \<open>
  C6. \<open>initWindow\<close> creates no buffer, vertex array object or program; the setup in
  \<open>main\<close> makes exactly one \<open>glGenVertexArrays\<close> call for one name, one \<open>glGenBuffers\<close>
  call for the vertex buffer, one for the index buffer, and one \<open>glCreateProgram\<close> call.
  From then on the two arrays and the four names never change: not at any evaluation of
  the loop condition, not in any pass through the body, not in the resize callback, and
  not in the state in which the loop ends; and no call made in the body or in the callback
  creates, fills, configures or deletes a buffer, a vertex array object or a program.
\<close>

theorem resources_created_once_never_written:
  "filter creates_resource (fst (initWindow env)) = [] \<and>
   filter creates_resource (drop (length t0) (events (main_setup env w t0))) =
     [glGenVertexArrays 1, glGenBuffers 1, glGenBuffers 1, glCreateProgram] \<and>
   resources (main_setup env w t0) =
     (vertices_init, indices_init, glGenBuffers_out1 env, glGenBuffers_out2 env,
      glGenVertexArrays_out env, glCreateProgram_ret env) \<and>
   resources (loop_state env (main_setup env w t0) k) = resources (main_setup env w t0) \<and>
   resources (loop_body env (loop_state env (main_setup env w t0) k)) =
     resources (main_setup env w t0) \<and>
   filter writes_resource (iteration_events env (loop_state env (main_setup env w t0) k)) = [] \<and>
   resources (framebuffer_size_callback win a b s) = resources s \<and>
   filter writes_resource
     (drop (length (events s)) (events (framebuffer_size_callback win a b s))) = [] \<and>
   (render_loop env (main_setup env w t0) = Some s' \<longrightarrow>
      resources s' = resources (main_setup env w t0))"
proof (intro conjI impI)
  show "filter creates_resource (fst (initWindow env)) = []"
    by (rule initWindow_filters)
  show "filter creates_resource (drop (length t0) (events (main_setup env w t0))) =
     [glGenVertexArrays 1, glGenBuffers 1, glGenBuffers 1, glCreateProgram]"
    by (simp add: main_setup_def Let_def split_def creates_resource_def)
  show "resources (main_setup env w t0) =
     (vertices_init, indices_init, glGenBuffers_out1 env, glGenBuffers_out2 env,
      glGenVertexArrays_out env, glCreateProgram_ret env)"
    by (rule resources_main_setup)
  show "resources (loop_state env (main_setup env w t0) k) = resources (main_setup env w t0)"
    by simp
  show "resources (loop_body env (loop_state env (main_setup env w t0) k)) =
     resources (main_setup env w t0)"
    by simp
  show "filter writes_resource
      (iteration_events env (loop_state env (main_setup env w t0) k)) = []"
    by (rule filter_iteration_events) (rule not_loop_event)
  show "resources (framebuffer_size_callback win a b s) = resources s"
    by (rule callback_resources)
  show "filter writes_resource
     (drop (length (events s)) (events (framebuffer_size_callback win a b s))) = []"
    by (simp add: framebuffer_size_callback_def writes_resource_def)
next
  assume "render_loop env (main_setup env w t0) = Some s'"
  from render_loop_Some[OF this] obtain k where "s' = loop_state env (main_setup env w t0) k"
    by blast
  then show "resources s' = resources (main_setup env w t0)" by simp
qed

theorem resources_created_once_never_written_witness:
  "\<exists>s'. render_loop env_escape (main_setup env_escape 4096 []) = Some s' \<and>
     resources s' = (vertices_init, indices_init, 1, 2, 1, 3)"
proof -
  have "render_loop env_escape (main_setup env_escape 4096 []) \<noteq> None"
    by code_simp
  then obtain s' where s': "render_loop env_escape (main_setup env_escape 4096 []) = Some s'"
    by auto
  with resources_created_once_never_written [of env_escape "[]" 4096 _ _ _ _ _ s']
  have "resources s' = (vertices_init, indices_init, 1, 2, 1, 3)"
    by (simp add: env_escape_def)
  with s' show ?thesis by blast
qed

subsection \<open>Shutdown\<close>

text \<open>
  C7. When \<open>initWindow\<close> has returned and the loop has ended, \<open>main\<close> makes one more
  call, \<open>glfwTerminate\<close>, and returns 0. No call of the whole run deletes a buffer, a
  vertex array object or a program; the only objects it releases are the two shader
  objects (deleted after linking, before the loop) and, through \<open>glfwTerminate\<close>, the
  window and its context.
\<close>

theorem shutdown_destroys_no_resource:
  assumes "initWindow env = (t0, Inr w)"
    and "render_loop env (main_setup env w t0) = Some s"
  shows "main env = Some (events s @ [glfwTerminate], 0) \<and>
         filter destroys_resource (events s @ [glfwTerminate]) = [] \<and>
         filter is_teardown (events s @ [glfwTerminate]) =
           [glDeleteShader (glCreateShader_ret1 env),
            glDeleteShader (glCreateShader_ret2 env),
            glfwTerminate]"
proof -
  from render_loop_Some[OF assms(2)] obtain k where k: "s = loop_state env (main_setup env w t0) k"
    by blast
  from assms(1) have w: "glfwCreateWindow_ret env \<noteq> NULL"
    by (auto simp: initWindow_def Let_def split: if_splits)
  from assms(1) have t0: "t0 = fst (initWindow env)" by simp
  have 1: "main env = Some (events s @ [glfwTerminate], 0)"
    using assms by (simp add: main_def)
  have 2: "filter destroys_resource (events s @ [glfwTerminate]) = []"
    unfolding k
    by (simp add: filter_loop_state[of destroys_resource, OF not_loop_event(4)]
        filter_destroys_main_setup t0 initWindow_filters)
       (simp add: destroys_resource_def)
  have 3: "filter is_teardown (events s @ [glfwTerminate]) =
           [glDeleteShader (glCreateShader_ret1 env),
            glDeleteShader (glCreateShader_ret2 env),
            glfwTerminate]"
    unfolding k using w
    by (simp add: filter_loop_state[of is_teardown, OF not_loop_event(5)]
        filter_teardown_main_setup t0 initWindow_filters)
       (simp add: is_teardown_def)
  from 1 2 3 show ?thesis by blast
qed

theorem shutdown_destroys_no_resource_witness:
  "map_option (\<lambda>(t, status). filter is_teardown t) (main env_escape) =
     Some [glDeleteShader 1, glDeleteShader 2, glfwTerminate]"
proof -
  have 1: "initWindow env_escape = (fst (initWindow env_escape), Inr 4096)"
    by (simp add: initWindow_def Let_def env_escape_def NULL_def)
  have "render_loop env_escape (main_setup env_escape 4096 (fst (initWindow env_escape)))
          \<noteq> None"
    by code_simp
  then obtain s where 2:
    "render_loop env_escape (main_setup env_escape 4096 (fst (initWindow env_escape))) = Some s"
    by auto
  from shutdown_destroys_no_resource [OF 1 2] show ?thesis
    by (simp add: env_escape_def)
qed

subsection \<open>External interface\<close>

text \<open>
  C9. Whatever the libraries and the user answer, and however far the run gets, the
  program makes exactly one call that creates a window, with the constant size 800 by 600
  and the constant title \<open>LearnOpenGL\<close>, and it never reads or writes a file, the command
  line or the process environment. The same holds for the complete trace of every run
  that terminates. (\<open>main\<close> is declared without parameters.)
\<close>

theorem external_interface:
  "filter creates_window (run_prefix env k) =
     [glfwCreateWindow 800 600 ''LearnOpenGL'' NULL NULL] \<and>
   filter is_outside (run_prefix env k) = [] \<and>
   (main env = Some (t, status) \<longrightarrow>
      filter creates_window t = [glfwCreateWindow 800 600 ''LearnOpenGL'' NULL NULL] \<and>
      filter is_outside t = [])"
proof -
  obtain t0 r where iw: "initWindow env = (t0, r)" by (cases "initWindow env")
  then have t0: "t0 = fst (initWindow env)" by simp
  have pre: "filter creates_window (events (loop_state env (main_setup env w t0) j)) =
        [glfwCreateWindow 800 600 ''LearnOpenGL'' NULL NULL] \<and>
      filter is_outside (events (loop_state env (main_setup env w t0) j)) = []" for w j
    by (simp add: filter_loop_state[of creates_window, OF not_loop_event(6)]
        filter_loop_state[of is_outside, OF not_loop_event(7)]
        filter_window_main_setup filter_outside_main_setup t0 initWindow_filters)
  have a: "filter creates_window (run_prefix env k) =
     [glfwCreateWindow 800 600 ''LearnOpenGL'' NULL NULL] \<and>
     filter is_outside (run_prefix env k) = []"
  proof (cases r)
    case (Inl c)
    with iw have "run_prefix env k = fst (initWindow env)" by (simp add: run_prefix_def)
    then show ?thesis by (simp add: initWindow_filters)
  next
    case (Inr w)
    with iw have "run_prefix env k = events (loop_state env (main_setup env w t0) k)"
      by (simp add: run_prefix_def)
    with pre show ?thesis by simp
  qed
  have b: "filter creates_window t = [glfwCreateWindow 800 600 ''LearnOpenGL'' NULL NULL] \<and>
      filter is_outside t = []" if m: "main env = Some (t, status)"
  proof -
    from main_cases[OF m] consider
      (exit) c where "initWindow env = (t, Inl c)"
    | (run) t1 w j where "initWindow env = (t1, Inr w)"
        "t = events (loop_state env (main_setup env w t1) j) @ [glfwTerminate]"
      by blast
    then show ?thesis
    proof cases
      case exit
      then have "t = fst (initWindow env)" by simp
      then show ?thesis by (simp add: initWindow_filters)
    next
      case run
      with iw have "t1 = t0" by simp
      with run(2) pre[of w j] show ?thesis
        by (simp add: creates_window_def is_outside_def)
    qed
  qed
  from a b show ?thesis by blast
qed

theorem external_interface_witness:
  "map_option (\<lambda>(t, status). filter creates_window t) (main env_close_button) =
     Some [glfwCreateWindow 800 600 ''LearnOpenGL'' 0 0]"
proof -
  have "main env_close_button \<noteq> None" by code_simp
  then obtain t c where m: "main env_close_button = Some (t, c)" by auto
  with external_interface [of env_close_button _ t c] show ?thesis
    by (simp add: NULL_def)
qed

end
